theory Spec2Isabelle
  imports Main "HOL-Library.Multiset"
begin

section \<open>The plan store service of server.js\<close>

text \<open>
  The service is an Express router over one SQLite table, \<open>plans\<close>. Every handler is
  modelled as a function from the database to a response and the database after the
  request. The handlers are sequential here: one request runs to its end before the
  next one starts.
\<close>

subsection \<open>JavaScript values of a request body\<close>

text \<open>
  The fields that a handler destructures from \<open>req.body\<close> are JSON scalars, or
  \<open>undefined\<close> when the key is missing. Numbers are the integer-valued ones.
  \<open>truthy\<close> is the coercion behind \<open>!v\<close>, \<open>v || d\<close> and \<open>v ? a : b\<close>.
\<close>

datatype jsval = Undefined | Null | JBool bool | JNum int | JStr string

fun truthy :: "jsval \<Rightarrow> bool" where
  "truthy Undefined = False"
| "truthy Null = False"
| "truthy (JBool b) = b"
| "truthy (JNum n) = (n \<noteq> 0)"
| "truthy (JStr s) = (s \<noteq> [])"

definition js_or :: "jsval \<Rightarrow> jsval \<Rightarrow> jsval" where
  "js_or a b = (if truthy a then a else b)"

record req_body =
  title :: jsval
  description :: jsval
  priority :: jsval
  deadline :: jsval
  author :: jsval
  completed :: jsval

text \<open>
  What the specification calls an absent or empty field, and a present, non-empty one,
  for the text fields of the data model.
\<close>

fun absent_or_empty :: "jsval \<Rightarrow> bool" where
  "absent_or_empty Undefined = True"
| "absent_or_empty Null = True"
| "absent_or_empty (JStr s) = (s = [])"
| "absent_or_empty _ = False"

fun nonempty_text :: "jsval \<Rightarrow> bool" where
  "nonempty_text (JStr s) = (s \<noteq> [])"
| "nonempty_text _ = False"

subsection \<open>The table\<close>

text \<open>
  A cell holds the value that was bound to the statement's parameter: a missing or null
  JavaScript value is bound as NULL, a boolean as 0 or 1, a number as an integer, a
  string as text. The storage-class conversion of a column's affinity (a number kept in
  a TEXT column as its decimal text) is not modelled; it changes no comparison below.
  \<open>created_at\<close> is written by \<open>DEFAULT CURRENT_TIMESTAMP\<close> only: the model keeps
  the second of the database clock that the text \<open>YYYY-MM-DD HH:MM:SS\<close> renders, and
  the order of these texts is the order of the seconds.
\<close>

datatype sqlval = SNull | SInt int | SText string

fun bind_param :: "jsval \<Rightarrow> sqlval" where
  "bind_param Undefined = SNull"
| "bind_param Null = SNull"
| "bind_param (JBool b) = SInt (if b then 1 else 0)"
| "bind_param (JNum n) = SInt n"
| "bind_param (JStr s) = SText s"

fun js_of_sql :: "sqlval \<Rightarrow> jsval" where
  "js_of_sql SNull = Null"
| "js_of_sql (SInt n) = JNum n"
| "js_of_sql (SText s) = JStr s"

record plan_row =
  row_id :: int
  row_title :: sqlval
  row_description :: sqlval
  row_priority :: sqlval
  row_deadline :: sqlval
  row_author :: sqlval
  row_completed :: sqlval
  row_created_at :: nat

text \<open>
  \<open>plans\<close> lists the rows in the order of a table scan. \<open>sqlite_sequence\<close> is the
  largest rowid that AUTOINCREMENT has handed out.
\<close>

record database =
  plans :: "plan_row list"
  sqlite_sequence :: int

definition empty_db :: database where
  "empty_db = \<lparr>plans = [], sqlite_sequence = 0\<rparr>"

text \<open>
  The \<open>:id\<close> segment of the path reaches \<open>WHERE id = ?\<close> as text. Compared with the
  INTEGER column it counts as the integer it spells; a segment that spells no integer
  equals no rowid.
\<close>

datatype id_param = Numeric int | NonNumeric

fun id_matches :: "id_param \<Rightarrow> plan_row \<Rightarrow> bool" where
  "id_matches (Numeric n) r = (row_id r = n)"
| "id_matches NonNumeric r = False"

subsection \<open>Constraints of the schema\<close>

datatype db_error = NotNullFailed | CheckFailed

definition valid_priority :: "sqlval \<Rightarrow> bool" where
  "valid_priority v = (v = SText ''low'' \<or> v = SText ''medium'' \<or> v = SText ''high'')"

text \<open>A CHECK constraint fails only when its expression is false: NULL passes it.\<close>

definition check_priority :: "sqlval \<Rightarrow> bool" where
  "check_priority v = (v = SNull \<or> valid_priority v)"

definition constraint_violation :: "plan_row \<Rightarrow> db_error option" where
  "constraint_violation r =
     (if row_title r = SNull \<or> row_deadline r = SNull \<or> row_author r = SNull
      then Some NotNullFailed
      else if \<not> check_priority (row_priority r) then Some CheckFailed
      else None)"

fun first_violation :: "plan_row list \<Rightarrow> db_error option" where
  "first_violation [] = None"
| "first_violation (r # rs) =
     (case constraint_violation r of Some e \<Rightarrow> Some e | None \<Rightarrow> first_violation rs)"

subsection \<open>The SQL statements\<close>

definition next_rowid :: "database \<Rightarrow> int" where
  "next_rowid db = fold max (map row_id (plans db)) (sqlite_sequence db) + 1"

text \<open>
  \<open>INSERT INTO plans (title, description, priority, deadline, author)\<close>:
  \<open>completed\<close> and \<open>created_at\<close> take their defaults. The result is \<open>this.lastID\<close>
  and the database with the row, or the constraint that failed.
\<close>

definition run_insert ::
  "sqlval \<Rightarrow> sqlval \<Rightarrow> sqlval \<Rightarrow> sqlval \<Rightarrow> sqlval \<Rightarrow> nat \<Rightarrow> database \<Rightarrow> db_error + (int \<times> database)"
where
  "run_insert t d p dl a db_now db =
     (let r = \<lparr>row_id = next_rowid db, row_title = t, row_description = d, row_priority = p,
                row_deadline = dl, row_author = a, row_completed = SInt 0,
                row_created_at = db_now\<rparr>
      in case constraint_violation r of
           Some e \<Rightarrow> Inl e
         | None \<Rightarrow> Inr (row_id r, \<lparr>plans = plans db @ [r], sqlite_sequence = row_id r\<rparr>))"

text \<open>\<open>SELECT ... WHERE id = ?\<close> through \<open>db.get\<close>: the first matching row, if any.\<close>

definition run_select :: "id_param \<Rightarrow> database \<Rightarrow> plan_row option" where
  "run_select i db = List.find (id_matches i) (plans db)"

text \<open>
  \<open>UPDATE plans SET title = ?, ... , completed = ? WHERE id = ?\<close>. The constraints are
  checked on each row that matches; a failure aborts the statement. The result is
  \<open>this.changes\<close>, the number of rows that matched.
\<close>

definition set_all ::
  "sqlval \<Rightarrow> sqlval \<Rightarrow> sqlval \<Rightarrow> sqlval \<Rightarrow> sqlval \<Rightarrow> sqlval \<Rightarrow> plan_row \<Rightarrow> plan_row"
where
  "set_all t d p dl a c r =
     r\<lparr>row_title := t, row_description := d, row_priority := p, row_deadline := dl,
       row_author := a, row_completed := c\<rparr>"

definition run_update ::
  "sqlval \<Rightarrow> sqlval \<Rightarrow> sqlval \<Rightarrow> sqlval \<Rightarrow> sqlval \<Rightarrow> sqlval \<Rightarrow> id_param \<Rightarrow> database
     \<Rightarrow> db_error + (nat \<times> database)"
where
  "run_update t d p dl a c i db =
     (let hit = filter (id_matches i) (plans db)
      in case first_violation (map (set_all t d p dl a c) hit) of
           Some e \<Rightarrow> Inl e
         | None \<Rightarrow>
             Inr (length hit,
                  db\<lparr>plans := map (\<lambda>r. if id_matches i r then set_all t d p dl a c r else r)
                                  (plans db)\<rparr>))"

text \<open>
  \<open>UPDATE plans SET completed = ? WHERE id = ?\<close>: the column \<open>completed\<close> carries no
  constraint, so the statement cannot fail on one.
\<close>

definition run_update_completed :: "sqlval \<Rightarrow> id_param \<Rightarrow> database \<Rightarrow> nat \<times> database" where
  "run_update_completed c i db =
     (length (filter (id_matches i) (plans db)),
      db\<lparr>plans := map (\<lambda>r. if id_matches i r then r\<lparr>row_completed := c\<rparr> else r) (plans db)\<rparr>)"

text \<open>\<open>DELETE FROM plans WHERE id = ?\<close>.\<close>

definition run_delete :: "id_param \<Rightarrow> database \<Rightarrow> nat \<times> database" where
  "run_delete i db =
     (length (filter (id_matches i) (plans db)),
      db\<lparr>plans := filter (\<lambda>r. \<not> id_matches i r) (plans db)\<rparr>)"

text \<open>
  \<open>ORDER BY created_at DESC\<close>. SQL leaves the order of rows with equal keys open;
  SQLite's sorter keeps them in the order of the scan, as this insertion sort does.
\<close>

fun place_desc :: "plan_row \<Rightarrow> plan_row list \<Rightarrow> plan_row list" where
  "place_desc r [] = [r]"
| "place_desc r (q # qs) =
     (if row_created_at q \<le> row_created_at r then r # q # qs else q # place_desc r qs)"

fun order_by_created_at_desc :: "plan_row list \<Rightarrow> plan_row list" where
  "order_by_created_at_desc [] = []"
| "order_by_created_at_desc (r # rs) = place_desc r (order_by_created_at_desc rs)"

text \<open>
  The aggregates of the statistics query. \<open>COUNT(*)\<close> of no rows is 0; \<open>SUM\<close> of no
  rows is NULL.
\<close>

definition sql_count :: "plan_row list \<Rightarrow> sqlval" where
  "sql_count rs = SInt (int (length rs))"

definition sql_sum :: "int list \<Rightarrow> sqlval" where
  "sql_sum xs = (if xs = [] then SNull else SInt (sum_list xs))"

definition case_completed :: "plan_row \<Rightarrow> int" where
  "case_completed r = (if row_completed r = SInt 1 then 1 else 0)"

definition case_high :: "plan_row \<Rightarrow> int" where
  "case_high r = (if row_priority r = SText ''high'' then 1 else 0)"

subsection \<open>Responses\<close>

datatype 'a response = Success 'a | ValidationError | NotFound | StorageError db_error

fun status_code :: "'a response \<Rightarrow> nat" where
  "status_code (Success x) = 200"
| "status_code ValidationError = 400"
| "status_code NotFound = 404"
| "status_code (StorageError e) = 500"

text \<open>
  The body of a successful POST. \<open>res_created_at\<close> is the instant, in milliseconds,
  that \<open>new Date().toISOString()\<close> renders.
\<close>

record created_plan =
  res_id :: int
  res_title :: jsval
  res_description :: jsval
  res_priority :: jsval
  res_deadline :: jsval
  res_author :: jsval
  res_completed :: bool
  res_created_at :: nat

record toggled =
  tog_completed :: bool
  tog_changes :: nat

record stats =
  stats_total :: jsval
  stats_completed :: jsval
  stats_high_priority :: jsval

subsection \<open>The handlers\<close>

text \<open>\<open>GET /api/plans\<close>\<close>

definition get_plans :: "database \<Rightarrow> plan_row list response \<times> database" where
  "get_plans db = (Success (order_by_created_at_desc (plans db)), db)"

text \<open>\<open>GET /api/plans/:id\<close>\<close>

definition get_plan :: "id_param \<Rightarrow> database \<Rightarrow> plan_row response \<times> database" where
  "get_plan i db =
     (case run_select i db of
        None \<Rightarrow> (NotFound, db)
      | Some row \<Rightarrow> (Success row, db))"

text \<open>
  \<open>POST /api/plans\<close>. \<open>db_now\<close> is the database clock when the INSERT runs, in
  seconds; \<open>js_now\<close> is the clock of the service when the callback builds the response,
  in milliseconds.
\<close>

definition post_plans ::
  "req_body \<Rightarrow> nat \<Rightarrow> nat \<Rightarrow> database \<Rightarrow> created_plan response \<times> database"
where
  "post_plans b db_now js_now db =
     (if \<not> truthy (title b) \<or> \<not> truthy (deadline b) \<or> \<not> truthy (author b)
      then (ValidationError, db)
      else
        case run_insert (bind_param (title b))
                        (bind_param (js_or (description b) (JStr '''')))
                        (bind_param (js_or (priority b) (JStr ''medium'')))
                        (bind_param (deadline b)) (bind_param (author b)) db_now db of
          Inl e \<Rightarrow> (StorageError e, db)
        | Inr (lastID, db') \<Rightarrow>
            (Success \<lparr>res_id = lastID, res_title = title b,
                      res_description = js_or (description b) (JStr ''''),
                      res_priority = js_or (priority b) (JStr ''medium''),
                      res_deadline = deadline b, res_author = author b,
                      res_completed = False, res_created_at = js_now\<rparr>,
             db'))"

text \<open>
  \<open>PUT /api/plans/:id\<close>. The payload of a success is \<open>changes\<close>; the constant
  \<open>message\<close> beside it is left out.
\<close>

definition put_plan :: "id_param \<Rightarrow> req_body \<Rightarrow> database \<Rightarrow> nat response \<times> database" where
  "put_plan i b db =
     (case run_update (bind_param (title b))
                      (bind_param (js_or (description b) (JStr '''')))
                      (bind_param (js_or (priority b) (JStr ''medium'')))
                      (bind_param (deadline b)) (bind_param (author b))
                      (SInt (if truthy (completed b) then 1 else 0)) i db of
        Inl e \<Rightarrow> (StorageError e, db)
      | Inr (changes, db') \<Rightarrow>
          if changes = 0 then (NotFound, db') else (Success changes, db'))"

text \<open>\<open>DELETE /api/plans/:id\<close>, with the same payload.\<close>

definition delete_plan :: "id_param \<Rightarrow> database \<Rightarrow> nat response \<times> database" where
  "delete_plan i db =
     (case run_delete i db of
        (changes, db') \<Rightarrow> if changes = 0 then (NotFound, db') else (Success changes, db'))"

text \<open>\<open>PATCH /api/plans/:id/toggle\<close>\<close>

definition patch_toggle :: "id_param \<Rightarrow> database \<Rightarrow> toggled response \<times> database" where
  "patch_toggle i db =
     (case run_select i db of
        None \<Rightarrow> (NotFound, db)
      | Some row \<Rightarrow>
          (let newStatus = \<not> truthy (js_of_sql (row_completed row))
           in case run_update_completed (SInt (if newStatus then 1 else 0)) i db of
                (changes, db') \<Rightarrow>
                  (Success \<lparr>tog_completed = newStatus, tog_changes = changes\<rparr>, db')))"

text \<open>\<open>GET /api/stats\<close>: the one row of the aggregate query.\<close>

definition get_stats :: "database \<Rightarrow> stats response \<times> database" where
  "get_stats db =
     (Success \<lparr>stats_total = js_of_sql (sql_count (plans db)),
               stats_completed = js_of_sql (sql_sum (map case_completed (plans db))),
               stats_high_priority = js_of_sql (sql_sum (map case_high (plans db)))\<rparr>,
      db)"

subsection \<open>Reachable databases and their invariant\<close>

text \<open>
  The table starts empty (\<open>CREATE TABLE IF NOT EXISTS\<close> on a new file) and changes
  through the four writing handlers only.
\<close>

inductive reachable :: "database \<Rightarrow> bool" where
  reach_init: "reachable empty_db"
| reach_post: "reachable db \<Longrightarrow> reachable (snd (post_plans b db_now js_now db))"
| reach_put: "reachable db \<Longrightarrow> reachable (snd (put_plan i b db))"
| reach_delete: "reachable db \<Longrightarrow> reachable (snd (delete_plan i db))"
| reach_toggle: "reachable db \<Longrightarrow> reachable (snd (patch_toggle i db))"

definition row_ok :: "database \<Rightarrow> plan_row \<Rightarrow> bool" where
  "row_ok db r =
     (0 < row_id r \<and> row_id r \<le> sqlite_sequence db \<and>
      row_title r \<noteq> SNull \<and> row_deadline r \<noteq> SNull \<and> row_author r \<noteq> SNull \<and>
      valid_priority (row_priority r) \<and>
      (row_completed r = SInt 0 \<or> row_completed r = SInt 1))"

definition db_inv :: "database \<Rightarrow> bool" where
  "db_inv db =
     (0 \<le> sqlite_sequence db \<and> sorted_wrt (<) (map row_id (plans db)) \<and>
      list_all (row_ok db) (plans db))"

text \<open>Whether the first of two rows comes earlier in a listing than the second.\<close>

fun listed_before :: "plan_row \<Rightarrow> plan_row \<Rightarrow> plan_row list \<Rightarrow> bool" where
  "listed_before a b [] = False"
| "listed_before a b (r # rs) = (if r = a then b \<in> set rs else listed_before a b rs)"

subsection \<open>Example requests and databases\<close>

definition ship_release :: req_body where
  "ship_release =
     \<lparr>title = JStr ''Ship release'', description = Undefined, priority = Undefined,
      deadline = JStr ''2024-06-01'', author = JStr ''alice'', completed = Undefined\<rparr>"

definition urgent_done :: req_body where
  "urgent_done = ship_release\<lparr>priority := JStr ''urgent'', completed := JBool True\<rparr>"

definition shouted_high :: req_body where
  "shouted_high = ship_release\<lparr>title := JStr ''Ship it'', priority := JStr ''HIGH''\<rparr>"

definition high_done :: req_body where
  "high_done =
     \<lparr>title = JStr ''Ship it'', description = JStr ''today'', priority = JStr ''high'',
      deadline = JStr ''2024-07-01'', author = JStr ''bob'', completed = JNum 1\<rparr>"

definition blank_priority :: req_body where
  "blank_priority = ship_release\<lparr>priority := JStr ''''\<rparr>"

definition ship_release_row :: plan_row where
  "ship_release_row =
     \<lparr>row_id = 1, row_title = SText ''Ship release'', row_description = SText '''',
      row_priority = SText ''medium'', row_deadline = SText ''2024-06-01'',
      row_author = SText ''alice'', row_completed = SInt 0, row_created_at = 100\<rparr>"

text \<open>One plan, created in second 100 of the database clock.\<close>

definition one_plan_db :: database where
  "one_plan_db = snd (post_plans ship_release 100 100000 empty_db)"

text \<open>A second plan, created within the same second, or in the next one.\<close>

definition same_second_db :: database where
  "same_second_db = snd (post_plans ship_release 100 100500 one_plan_db)"

definition next_second_db :: database where
  "next_second_db = snd (post_plans ship_release 101 101000 one_plan_db)"

section \<open>Properties\<close>

subsection \<open>The invariant of the reachable databases\<close>

text \<open>
  Rowids are positive, strictly increasing along the scan and never above
  \<open>sqlite_sequence\<close>; every row satisfies the NOT NULL and CHECK constraints, and its
  \<open>completed\<close> cell is 0 or 1.
\<close>

lemma fold_max_ge_init: "(a::int) \<le> fold max xs a"
  by (induction xs arbitrary: a) (auto intro: order_trans [OF max.cobounded2])

lemma fold_max_ge_elem: "x \<in> set xs \<Longrightarrow> (x::int) \<le> fold max xs a"
  by (induction xs arbitrary: a) (auto intro: order_trans [OF max.cobounded1 fold_max_ge_init])

lemma next_rowid_gt_seq: "sqlite_sequence db < next_rowid db"
  using fold_max_ge_init [of "sqlite_sequence db" "map row_id (plans db)"]
  by (simp add: next_rowid_def)

lemma next_rowid_gt_id: "r \<in> set (plans db) \<Longrightarrow> row_id r < next_rowid db"
  using fold_max_ge_elem [of "row_id r" "map row_id (plans db)" "sqlite_sequence db"]
  by (simp add: next_rowid_def)

lemma truthy_bind_not_null: "truthy v \<Longrightarrow> bind_param v \<noteq> SNull"
  by (cases v) auto

lemma bind_js_or_not_null: "truthy d \<Longrightarrow> bind_param (js_or v d) \<noteq> SNull"
  by (simp add: js_or_def truthy_bind_not_null)

lemma check_not_null_valid: "check_priority v \<Longrightarrow> v \<noteq> SNull \<Longrightarrow> valid_priority v"
  by (simp add: check_priority_def)

lemma row_ok_seq_mono:
  "row_ok db r \<Longrightarrow> sqlite_sequence db \<le> sqlite_sequence db' \<Longrightarrow> row_ok db' r"
  by (auto simp: row_ok_def)

lemma first_violation_None:
  "first_violation rs = None \<Longrightarrow> r \<in> set rs \<Longrightarrow> constraint_violation r = None"
  by (induction rs) (auto split: option.splits)

lemma db_inv_empty: "db_inv empty_db"
  by (simp add: db_inv_def empty_db_def)

lemma db_inv_post:
  assumes "db_inv db"
  shows "db_inv (snd (post_plans b db_now js_now db))"
proof (cases "post_plans b db_now js_now db = (ValidationError, db) \<or> (\<exists>e. post_plans b db_now js_now db = (StorageError e, db))")
  case True
  then show ?thesis using assms by auto
next
  case False
  define r where "r = \<lparr>row_id = next_rowid db, row_title = bind_param (title b),
      row_description = bind_param (js_or (description b) (JStr '''')),
      row_priority = bind_param (js_or (priority b) (JStr ''medium'')),
      row_deadline = bind_param (deadline b), row_author = bind_param (author b),
      row_completed = SInt 0, row_created_at = db_now\<rparr>"
  from False have ok: "constraint_violation r = None"
    and db': "snd (post_plans b db_now js_now db) = \<lparr>plans = plans db @ [r], sqlite_sequence = row_id r\<rparr>"
    by (auto simp: post_plans_def run_insert_def Let_def r_def split: if_splits option.splits)
  have id: "row_id r = next_rowid db" by (simp add: r_def)
  have seq: "sqlite_sequence db < row_id r" using next_rowid_gt_seq [of db] id by simp
  have pri: "valid_priority (row_priority r)"
  proof -
    have "check_priority (row_priority r)"
      using ok by (auto simp: constraint_violation_def split: if_splits)
    moreover have "row_priority r \<noteq> SNull"
      by (simp add: r_def bind_js_or_not_null)
    ultimately show ?thesis by (rule check_not_null_valid)
  qed
  have new: "row_ok \<lparr>plans = plans db @ [r], sqlite_sequence = row_id r\<rparr> r"
    using ok pri seq assms
    by (auto simp: row_ok_def db_inv_def constraint_violation_def r_def split: if_splits)
  have old: "list_all (row_ok \<lparr>plans = plans db @ [r], sqlite_sequence = row_id r\<rparr>) (plans db)"
    using assms seq by (auto simp: db_inv_def list_all_iff intro: row_ok_seq_mono)
  have srt: "sorted_wrt (<) (map row_id (plans db @ [r]))"
    using assms next_rowid_gt_id [of _ db] id by (auto simp: db_inv_def sorted_wrt_append)
  show ?thesis
    using new old srt seq assms by (simp add: db' db_inv_def)
qed

lemma map_row_id_set_all:
  "map row_id (map (\<lambda>r. if id_matches i r then set_all t d p dl a c r else r) rs) = map row_id rs"
  by (induction rs) (auto simp: set_all_def)

lemma db_inv_put:
  assumes "db_inv db"
  shows "db_inv (snd (put_plan i b db))"
proof (cases "run_update (bind_param (title b))
                      (bind_param (js_or (description b) (JStr '''')))
                      (bind_param (js_or (priority b) (JStr ''medium'')))
                      (bind_param (deadline b)) (bind_param (author b))
                      (SInt (if truthy (completed b) then 1 else 0)) i db")
  case (Inl e)
  then show ?thesis using assms by (simp add: put_plan_def)
next
  case (Inr res)
  define f where "f = set_all (bind_param (title b))
                      (bind_param (js_or (description b) (JStr '''')))
                      (bind_param (js_or (priority b) (JStr ''medium'')))
                      (bind_param (deadline b)) (bind_param (author b))
                      (SInt (if truthy (completed b) then 1 else 0))"
  define g where "g = (\<lambda>r. if id_matches i r then f r else r)"
  from Inr have none: "first_violation (map f (filter (id_matches i) (plans db))) = None"
    and db': "snd (put_plan i b db) = db\<lparr>plans := map g (plans db)\<rparr>"
    by (auto simp: put_plan_def run_update_def Let_def f_def g_def split: option.splits if_splits)
  have ids: "map row_id (map g (plans db)) = map row_id (plans db)"
    unfolding g_def f_def by (rule map_row_id_set_all)
  have rows: "row_ok db (g r)" if r: "r \<in> set (plans db)" for r
  proof (cases "id_matches i r")
    case False
    then show ?thesis using assms r by (simp add: db_inv_def list_all_iff g_def)
  next
    case True
    with r have "f r \<in> set (map f (filter (id_matches i) (plans db)))" by simp
    with none have cv: "constraint_violation (f r) = None" by (rule first_violation_None)
    have "row_priority (f r) \<noteq> SNull"
      by (simp add: f_def set_all_def bind_js_or_not_null)
    moreover have "check_priority (row_priority (f r))"
      using cv by (auto simp: constraint_violation_def split: if_splits)
    ultimately have "valid_priority (row_priority (f r))" by (simp add: check_not_null_valid)
    moreover have "row_ok db r" using assms r by (simp add: db_inv_def list_all_iff)
    ultimately show ?thesis
      using True cv
      by (auto simp: g_def row_ok_def constraint_violation_def f_def set_all_def split: if_splits)
  qed
  have pl: "plans (snd (put_plan i b db)) = map g (plans db)"
    by (simp add: db')
  have srt: "sorted_wrt (<) (map row_id (plans (snd (put_plan i b db))))"
    unfolding pl ids using assms by (simp add: db_inv_def)
  have same: "row_ok (snd (put_plan i b db)) = row_ok db"
    by (simp add: db' row_ok_def fun_eq_iff)
  have all: "list_all (row_ok (snd (put_plan i b db))) (plans (snd (put_plan i b db)))"
    unfolding pl same by (simp add: list_all_iff rows)
  have "0 \<le> sqlite_sequence (snd (put_plan i b db))"
    using assms unfolding db' by (simp add: db_inv_def)
  with srt all show ?thesis by (simp only: db_inv_def simp_thms)
qed

lemma db_inv_delete:
  assumes "db_inv db"
  shows "db_inv (snd (delete_plan i db))"
proof -
  have db': "snd (delete_plan i db) = db\<lparr>plans := filter (\<lambda>r. \<not> id_matches i r) (plans db)\<rparr>"
    by (simp add: delete_plan_def run_delete_def)
  have "sorted_wrt (<) (map row_id (filter (\<lambda>r. \<not> id_matches i r) (plans db)))"
    using assms by (simp add: db_inv_def sorted_wrt_map sorted_wrt_filter)
  then show ?thesis
    using assms unfolding db' db_inv_def by (simp add: list_all_iff row_ok_def)
qed

lemma map_row_id_set_completed:
  "map row_id (map (\<lambda>r. if id_matches i r then r\<lparr>row_completed := c\<rparr> else r) rs) = map row_id rs"
  by (induction rs) auto

lemma db_inv_toggle:
  assumes "db_inv db"
  shows "db_inv (snd (patch_toggle i db))"
proof (cases "run_select i db")
  case None
  then show ?thesis using assms by (simp add: patch_toggle_def)
next
  case (Some row)
  define c where "c = SInt (if \<not> truthy (js_of_sql (row_completed row)) then 1 else 0)"
  have c01: "c = SInt 0 \<or> c = SInt 1" by (simp add: c_def)
  have db': "snd (patch_toggle i db)
       = db\<lparr>plans := map (\<lambda>r. if id_matches i r then r\<lparr>row_completed := c\<rparr> else r) (plans db)\<rparr>"
    using Some by (simp add: patch_toggle_def run_update_completed_def Let_def c_def)
  have pl: "plans (snd (patch_toggle i db))
       = map (\<lambda>r. if id_matches i r then r\<lparr>row_completed := c\<rparr> else r) (plans db)"
    by (simp add: db')
  have srt: "sorted_wrt (<) (map row_id (plans (snd (patch_toggle i db))))"
    unfolding pl map_row_id_set_completed using assms by (simp add: db_inv_def)
  have all: "list_all (row_ok (snd (patch_toggle i db))) (plans (snd (patch_toggle i db)))"
    using assms c01 unfolding db' by (auto simp: db_inv_def list_all_iff row_ok_def)
  have "0 \<le> sqlite_sequence (snd (patch_toggle i db))"
    using assms unfolding db' by (simp add: db_inv_def)
  with srt all show ?thesis by (simp only: db_inv_def simp_thms)
qed

lemma reachable_db_inv: "reachable db \<Longrightarrow> db_inv db"
  by (induction rule: reachable.induct)
     (simp_all add: db_inv_empty db_inv_post db_inv_put db_inv_delete db_inv_toggle)

text \<open>The example databases, evaluated.\<close>

lemma one_plan_db_eq: "one_plan_db = \<lparr>plans = [ship_release_row], sqlite_sequence = 1\<rparr>"
  by (simp add: one_plan_db_def post_plans_def run_insert_def next_rowid_def empty_db_def
        ship_release_def ship_release_row_def js_or_def constraint_violation_def
        check_priority_def valid_priority_def)

lemma reachable_one_plan_db: "reachable one_plan_db"
  unfolding one_plan_db_def by (rule reach_post [OF reach_init])

lemma same_second_db_eq:
  "same_second_db = \<lparr>plans = [ship_release_row, ship_release_row\<lparr>row_id := 2\<rparr>],
                      sqlite_sequence = 2\<rparr>"
  by (simp add: same_second_db_def one_plan_db_eq post_plans_def run_insert_def next_rowid_def
        ship_release_def ship_release_row_def js_or_def constraint_violation_def
        check_priority_def valid_priority_def)

lemma next_second_db_eq:
  "next_second_db =
     \<lparr>plans = [ship_release_row, ship_release_row\<lparr>row_id := 2, row_created_at := 101\<rparr>],
      sqlite_sequence = 2\<rparr>"
  by (simp add: next_second_db_def one_plan_db_eq post_plans_def run_insert_def next_rowid_def
        ship_release_def ship_release_row_def js_or_def constraint_violation_def
        check_priority_def valid_priority_def)

lemma reachable_same_second_db: "reachable same_second_db"
  unfolding same_second_db_def by (rule reach_post [OF reachable_one_plan_db])

lemma reachable_next_second_db: "reachable next_second_db"
  unfolding next_second_db_def by (rule reach_post [OF reachable_one_plan_db])

subsection \<open>Selecting a row by its identifier\<close>

lemma select_None_filter: "run_select i db = None \<Longrightarrow> filter (id_matches i) (plans db) = []"
  by (auto simp: run_select_def find_None_iff filter_empty_conv)

lemma find_sorted_unique:
  "sorted_wrt (<) (map row_id rs) \<Longrightarrow> List.find (id_matches i) rs = Some row
     \<Longrightarrow> filter (id_matches i) rs = [row]"
proof (induction rs)
  case Nil
  then show ?case by simp
next
  case (Cons r rs)
  show ?case
  proof (cases "id_matches i r")
    case True
    then obtain n where i: "i = Numeric n" and n: "row_id r = n" by (cases i) auto
    have "\<not> id_matches i q" if "q \<in> set rs" for q
      using Cons.prems(1) that i n by auto
    then have "filter (id_matches i) rs = []" by (simp add: filter_empty_conv)
    with True Cons.prems(2) show ?thesis by simp
  next
    case False
    with Cons show ?thesis by simp
  qed
qed

lemma select_Some_filter:
  "db_inv db \<Longrightarrow> run_select i db = Some row \<Longrightarrow> filter (id_matches i) (plans db) = [row]"
  by (simp add: db_inv_def run_select_def find_sorted_unique)

lemma find_map_matching:
  assumes "List.find (id_matches i) rs = Some row"
    and "\<And>r. id_matches i (f r) = id_matches i r"
  shows "List.find (id_matches i) (map (\<lambda>r. if id_matches i r then f r else r) rs) = Some (f row)"
  using assms(1) by (induction rs) (auto simp: assms(2) split: if_splits)

lemma id_matches_set_all [simp]: "id_matches i (set_all t d p dl a c r) = id_matches i r"
  by (cases i) (simp_all add: set_all_def)

lemma id_matches_set_completed [simp]: "id_matches i (r\<lparr>row_completed := c\<rparr>) = id_matches i r"
  by (cases i) simp_all

lemma filter_others_map:
  "filter (\<lambda>r. \<not> id_matches i r) (map (\<lambda>r. if id_matches i r then f r else r) rs)
     = filter (\<lambda>r. \<not> id_matches i r) rs"
  if "\<And>r. id_matches i (f r) = id_matches i r"
  by (induction rs) (auto simp: that)

subsection \<open>Validation of a create request\<close>

lemma absent_or_empty_falsy: "absent_or_empty v \<Longrightarrow> \<not> truthy v"
  by (cases v) auto

lemma nonempty_text_truthy: "nonempty_text v \<Longrightarrow> truthy v"
  by (cases v) auto

text \<open>
  C1. A create request whose title, deadline or author is absent or empty is answered
  with ValidationError, status 400, and the database is left as it was: no row is
  inserted. A create request whose title, deadline and author are all non-empty text
  passes the validation: its response is not ValidationError.
\<close>

theorem post_plans_validation:
  "((absent_or_empty (title b) \<or> absent_or_empty (deadline b) \<or> absent_or_empty (author b)) \<longrightarrow>
      post_plans b db_now js_now db = (ValidationError, db) \<and>
      status_code (fst (post_plans b db_now js_now db)) = 400) \<and>
   ((nonempty_text (title b) \<and> nonempty_text (deadline b) \<and> nonempty_text (author b)) \<longrightarrow>
      fst (post_plans b db_now js_now db) \<noteq> ValidationError)"
  by (auto simp: post_plans_def absent_or_empty_falsy dest: nonempty_text_truthy
           split: sum.splits prod.splits)

theorem post_plans_validation_witness:
  "absent_or_empty (author (ship_release\<lparr>author := Undefined\<rparr>)) \<and>
   post_plans (ship_release\<lparr>author := Undefined\<rparr>) 100 100000 one_plan_db
     = (ValidationError, one_plan_db) \<and>
   nonempty_text (title ship_release) \<and> nonempty_text (deadline ship_release) \<and>
   nonempty_text (author ship_release) \<and>
   fst (post_plans ship_release 100 100000 one_plan_db) \<noteq> ValidationError"
proof -
  have missing: "absent_or_empty (author (ship_release\<lparr>author := Undefined\<rparr>))"
    by simp
  have given: "nonempty_text (title ship_release) \<and> nonempty_text (deadline ship_release) \<and>
               nonempty_text (author ship_release)"
    by (simp add: ship_release_def)
  from missing given
    post_plans_validation [of "ship_release\<lparr>author := Undefined\<rparr>" 100 100000 one_plan_db]
    post_plans_validation [of ship_release 100 100000 one_plan_db]
  show ?thesis by blast
qed

subsection \<open>The response of a successful create request\<close>

lemma post_plans_cases:
  assumes "fst (post_plans b db_now js_now db) = Success r"
  shows "truthy (title b) \<and> truthy (deadline b) \<and> truthy (author b) \<and>
         post_plans b db_now js_now db =
           (Success \<lparr>res_id = next_rowid db, res_title = title b,
                      res_description = js_or (description b) (JStr ''''),
                      res_priority = js_or (priority b) (JStr ''medium''),
                      res_deadline = deadline b, res_author = author b,
                      res_completed = False, res_created_at = js_now\<rparr>,
            \<lparr>plans = plans db @
               [\<lparr>row_id = next_rowid db, row_title = bind_param (title b),
                 row_description = bind_param (js_or (description b) (JStr '''')),
                 row_priority = bind_param (js_or (priority b) (JStr ''medium'')),
                 row_deadline = bind_param (deadline b), row_author = bind_param (author b),
                 row_completed = SInt 0, row_created_at = db_now\<rparr>],
             sqlite_sequence = next_rowid db\<rparr>)"
  using assms
  by (auto simp: post_plans_def run_insert_def Let_def split: if_splits option.splits)

text \<open>
  C2. The response of a successful create request is the full created record: the
  identifier that the table assigned, a positive integer that no stored plan had; the
  title, deadline and author of the request; the description of the request, or the
  empty string when it is omitted (or falsy); the priority of the request, or medium
  when it is omitted (or falsy); completed false; and as created_at the instant of the
  service's own clock, while the row that was inserted carries the second of the
  database clock.
\<close>

theorem post_plans_created_record:
  assumes "reachable db"
    and "post_plans b db_now js_now db = (Success r, db')"
  shows "0 < res_id r \<and> res_id r \<notin> row_id ` set (plans db) \<and>
         res_title r = title b \<and> res_deadline r = deadline b \<and> res_author r = author b \<and>
         res_description r = (if truthy (description b) then description b else JStr '''') \<and>
         res_priority r = (if truthy (priority b) then priority b else JStr ''medium'') \<and>
         res_completed r = False \<and>
         res_created_at r = js_now \<and>
         plans db' = plans db @
           [\<lparr>row_id = res_id r, row_title = bind_param (res_title r),
             row_description = bind_param (res_description r),
             row_priority = bind_param (res_priority r),
             row_deadline = bind_param (res_deadline r), row_author = bind_param (res_author r),
             row_completed = SInt 0, row_created_at = db_now\<rparr>]"
proof -
  from assms(2) have "fst (post_plans b db_now js_now db) = Success r" by simp
  from post_plans_cases [OF this] assms(2)
  have r: "r = \<lparr>res_id = next_rowid db, res_title = title b,
                      res_description = js_or (description b) (JStr ''''),
                      res_priority = js_or (priority b) (JStr ''medium''),
                      res_deadline = deadline b, res_author = author b,
                      res_completed = False, res_created_at = js_now\<rparr>"
    and db': "db' = \<lparr>plans = plans db @
               [\<lparr>row_id = next_rowid db, row_title = bind_param (title b),
                 row_description = bind_param (js_or (description b) (JStr '''')),
                 row_priority = bind_param (js_or (priority b) (JStr ''medium'')),
                 row_deadline = bind_param (deadline b), row_author = bind_param (author b),
                 row_completed = SInt 0, row_created_at = db_now\<rparr>],
             sqlite_sequence = next_rowid db\<rparr>"
    by simp_all
  have "0 \<le> sqlite_sequence db"
    using reachable_db_inv [OF assms(1)] by (simp add: db_inv_def)
  then have pos: "0 < next_rowid db"
    using next_rowid_gt_seq [of db] by simp
  have fresh: "next_rowid db \<notin> row_id ` set (plans db)"
  proof
    assume "next_rowid db \<in> row_id ` set (plans db)"
    then obtain q where "q \<in> set (plans db)" and "row_id q = next_rowid db" by auto
    with next_rowid_gt_id [of q db] show False by simp
  qed
  show ?thesis
    using pos fresh by (simp add: r db' js_or_def)
qed

theorem post_plans_created_record_witness:
  "reachable one_plan_db \<and>
   post_plans ship_release 101 101000 one_plan_db =
     (Success \<lparr>res_id = 2, res_title = JStr ''Ship release'', res_description = JStr '''',
               res_priority = JStr ''medium'', res_deadline = JStr ''2024-06-01'',
               res_author = JStr ''alice'', res_completed = False, res_created_at = 101000\<rparr>,
      next_second_db) \<and>
   plans next_second_db = plans one_plan_db @
     [\<lparr>row_id = 2, row_title = SText ''Ship release'', row_description = SText '''',
       row_priority = SText ''medium'', row_deadline = SText ''2024-06-01'',
       row_author = SText ''alice'', row_completed = SInt 0, row_created_at = 101\<rparr>]"
proof -
  have run: "post_plans ship_release 101 101000 one_plan_db =
     (Success \<lparr>res_id = 2, res_title = JStr ''Ship release'', res_description = JStr '''',
               res_priority = JStr ''medium'', res_deadline = JStr ''2024-06-01'',
               res_author = JStr ''alice'', res_completed = False, res_created_at = 101000\<rparr>,
      next_second_db)"
    by (simp add: next_second_db_eq one_plan_db_eq post_plans_def run_insert_def next_rowid_def
        ship_release_def ship_release_row_def js_or_def constraint_violation_def
        check_priority_def valid_priority_def)
  from post_plans_created_record [OF reachable_one_plan_db run] reachable_one_plan_db run
  show ?thesis by simp
qed

subsection \<open>Updating and toggling an existing plan\<close>

lemma first_violation_single [simp]: "first_violation [r] = constraint_violation r"
  by (simp split: option.splits)

lemma matching_is_selected:
  assumes "db_inv db" and "run_select i db = Some row" and "r \<in> set (plans db)"
    and "id_matches i r"
  shows "r = row"
proof -
  from assms(3,4) have "r \<in> set (filter (id_matches i) (plans db))" by simp
  then show ?thesis by (simp add: select_Some_filter [OF assms(1,2)])
qed

lemma run_update_existing:
  assumes "db_inv db" and "run_select i db = Some old"
  shows "run_update t d p dl a c i db =
     (case constraint_violation (set_all t d p dl a c old) of
        Some e \<Rightarrow> Inl e
      | None \<Rightarrow> Inr (1, db\<lparr>plans := map (\<lambda>r. if id_matches i r then set_all t d p dl a c r else r)
                                      (plans db)\<rparr>))"
  by (simp add: run_update_def select_Some_filter [OF assms] split: option.splits)

lemma select_after_update:
  assumes "run_select i db = Some old"
  shows "run_select i (db\<lparr>plans := map (\<lambda>r. if id_matches i r then set_all t d p dl a c r else r)
                                      (plans db)\<rparr>) = Some (set_all t d p dl a c old)"
  using assms by (simp add: run_select_def find_map_matching)

lemma put_plan_existing:
  assumes "db_inv db" and "run_select i db = Some old"
    and "new = set_all (bind_param (title b)) (bind_param (js_or (description b) (JStr '''')))
                 (bind_param (js_or (priority b) (JStr ''medium''))) (bind_param (deadline b))
                 (bind_param (author b)) (SInt (if truthy (completed b) then 1 else 0)) old"
  shows "(constraint_violation new = None \<longrightarrow>
            fst (put_plan i b db) = Success 1 \<and> run_select i (snd (put_plan i b db)) = Some new) \<and>
         (constraint_violation new = Some e \<longrightarrow> put_plan i b db = (StorageError e, db))"
  using select_after_update [OF assms(2)]
  by (simp add: put_plan_def run_update_existing [OF assms(1,2)] assms(3))

lemma set_all_record:
  "set_all t d p dl a c old =
     \<lparr>row_id = row_id old, row_title = t, row_description = d, row_priority = p,
      row_deadline = dl, row_author = a, row_completed = c, row_created_at = row_created_at old\<rparr>"
  by (cases old) (simp add: set_all_def)

lemma toggle_existing:
  assumes "db_inv db" and "run_select i db = Some row"
    and "c = SInt (if truthy (js_of_sql (row_completed row)) then 0 else 1)"
  shows "patch_toggle i db =
           (Success \<lparr>tog_completed = \<not> truthy (js_of_sql (row_completed row)), tog_changes = 1\<rparr>,
            db\<lparr>plans := map (\<lambda>r. if id_matches i r then r\<lparr>row_completed := c\<rparr> else r) (plans db)\<rparr>)"
    and "run_select i (snd (patch_toggle i db)) = Some (row\<lparr>row_completed := c\<rparr>)"
proof -
  show 1: "patch_toggle i db =
           (Success \<lparr>tog_completed = \<not> truthy (js_of_sql (row_completed row)), tog_changes = 1\<rparr>,
            db\<lparr>plans := map (\<lambda>r. if id_matches i r then r\<lparr>row_completed := c\<rparr> else r) (plans db)\<rparr>)"
    using assms(2)
    by (simp add: patch_toggle_def run_update_completed_def Let_def assms(3)
          select_Some_filter [OF assms(1,2)])
  show "run_select i (snd (patch_toggle i db)) = Some (row\<lparr>row_completed := c\<rparr>)"
    using assms(2) unfolding 1 by (simp add: run_select_def find_map_matching)
qed

text \<open>The example updates, evaluated.\<close>

lemma select_one_plan_db: "run_select (Numeric 1) one_plan_db = Some ship_release_row"
  by (simp add: one_plan_db_eq run_select_def ship_release_row_def)

lemma put_high_done:
  "put_plan (Numeric 1) high_done one_plan_db =
     (Success 1,
      \<lparr>plans = [\<lparr>row_id = 1, row_title = SText ''Ship it'', row_description = SText ''today'',
                 row_priority = SText ''high'', row_deadline = SText ''2024-07-01'',
                 row_author = SText ''bob'', row_completed = SInt 1, row_created_at = 100\<rparr>],
       sqlite_sequence = 1\<rparr>)"
  by (simp add: put_plan_def run_update_def one_plan_db_eq ship_release_row_def high_done_def
        set_all_def js_or_def constraint_violation_def check_priority_def valid_priority_def)

lemma put_urgent_done:
  "put_plan (Numeric 1) urgent_done one_plan_db = (StorageError CheckFailed, one_plan_db)"
  by (simp add: put_plan_def run_update_def one_plan_db_eq ship_release_row_def urgent_done_def
        ship_release_def set_all_def js_or_def constraint_violation_def check_priority_def
        valid_priority_def)

lemma put_shouted_high:
  "put_plan (Numeric 1) shouted_high one_plan_db = (StorageError CheckFailed, one_plan_db)"
  by (simp add: put_plan_def run_update_def one_plan_db_eq ship_release_row_def shouted_high_def
        ship_release_def set_all_def js_or_def constraint_violation_def check_priority_def
        valid_priority_def)

subsection \<open>Identifiers that match no plan\<close>

text \<open>
  C5. When the identifier matches no stored plan, getting, updating, deleting and
  toggling each answer NotFound, status 404, whatever the body of the update is (so
  never StorageError), and the database is left as it was.
\<close>

theorem missing_id_not_found:
  assumes "run_select i db = None"
  shows "get_plan i db = (NotFound, db) \<and> put_plan i b db = (NotFound, db) \<and>
         delete_plan i db = (NotFound, db) \<and> patch_toggle i db = (NotFound, db) \<and>
         status_code (fst (get_plan i db)) = 404 \<and> status_code (fst (put_plan i b db)) = 404 \<and>
         status_code (fst (delete_plan i db)) = 404 \<and> status_code (fst (patch_toggle i db)) = 404"
proof -
  have none: "filter (id_matches i) (plans db) = []"
    using assms by (rule select_None_filter)
  have keep: "filter (\<lambda>r. \<not> id_matches i r) (plans db) = plans db"
    using none by (simp add: filter_empty_conv filter_id_conv)
  have same: "map (\<lambda>r. if id_matches i r then f r else r) (plans db) = plans db" for f
    using none by (simp add: filter_empty_conv map_idI)
  have g: "get_plan i db = (NotFound, db)"
    using assms by (simp add: get_plan_def)
  have p: "put_plan i b db = (NotFound, db)"
    by (simp add: put_plan_def run_update_def none same)
  have d: "delete_plan i db = (NotFound, db)"
    by (simp add: delete_plan_def run_delete_def none keep)
  have t: "patch_toggle i db = (NotFound, db)"
    using assms by (simp add: patch_toggle_def)
  show ?thesis by (simp add: g p d t)
qed

theorem missing_id_not_found_witness:
  "run_select (Numeric 2) one_plan_db = None \<and>
   get_plan (Numeric 2) one_plan_db = (NotFound, one_plan_db) \<and>
   put_plan (Numeric 2) urgent_done one_plan_db = (NotFound, one_plan_db) \<and>
   delete_plan (Numeric 2) one_plan_db = (NotFound, one_plan_db) \<and>
   patch_toggle (Numeric 2) one_plan_db = (NotFound, one_plan_db)"
proof -
  have absent: "run_select (Numeric 2) one_plan_db = None"
    by (simp add: one_plan_db_eq run_select_def ship_release_row_def)
  from absent missing_id_not_found [OF absent, of urgent_done]
  show ?thesis by simp
qed

subsection \<open>What an update replaces\<close>

text \<open>
  C4, as the claim states it, fails: an update of an existing plan whose priority is
  outside the set is answered with StorageError, and no field is replaced.
\<close>

theorem put_plan_rejected_counterexample:
  "run_select (Numeric 1) one_plan_db = Some ship_release_row \<and>
   put_plan (Numeric 1) shouted_high one_plan_db = (StorageError CheckFailed, one_plan_db) \<and>
   title shouted_high = JStr ''Ship it'' \<and>
   map row_title (plans one_plan_db) = [SText ''Ship release'']"
  by (simp add: select_one_plan_db put_shouted_high)
     (simp add: shouted_high_def one_plan_db_eq ship_release_row_def)

text \<open>
  C4, amended. An update whose identifier matches no row answers NotFound. An update
  of an existing plan that satisfies the constraints of the table replaces every
  mutable field, whatever the row held: the new row keeps \<open>id\<close> and \<open>created_at\<close>
  and takes everything else from the request, an absent (or falsy) description as the
  empty string and an absent (or falsy) priority as medium; the response reports the
  number of rows changed, which is 1. An update of an existing plan that violates a
  constraint answers StorageError and changes nothing.
\<close>

theorem put_plan_replaces_all_fields:
  assumes "reachable db"
    and "new = \<lparr>row_id = row_id old, row_title = bind_param (title b),
                row_description =
                  bind_param (if truthy (description b) then description b else JStr ''''),
                row_priority =
                  bind_param (if truthy (priority b) then priority b else JStr ''medium''),
                row_deadline = bind_param (deadline b), row_author = bind_param (author b),
                row_completed = SInt (if truthy (completed b) then 1 else 0),
                row_created_at = row_created_at old\<rparr>"
  shows "(run_select i db = None \<longrightarrow> put_plan i b db = (NotFound, db)) \<and>
         (run_select i db = Some old \<and> constraint_violation new = None \<longrightarrow>
            fst (put_plan i b db) = Success 1 \<and>
            run_select i (snd (put_plan i b db)) = Some new) \<and>
         (run_select i db = Some old \<and> constraint_violation new = Some e \<longrightarrow>
            put_plan i b db = (StorageError e, db))"
proof -
  have inv: "db_inv db" using assms(1) by (rule reachable_db_inv)
  have new: "new = set_all (bind_param (title b)) (bind_param (js_or (description b) (JStr '''')))
                 (bind_param (js_or (priority b) (JStr ''medium''))) (bind_param (deadline b))
                 (bind_param (author b)) (SInt (if truthy (completed b) then 1 else 0)) old"
    unfolding set_all_record assms(2) js_or_def by (rule refl)
  have missing: "put_plan i b db = (NotFound, db)" if "run_select i db = None"
  proof -
    have none: "filter (id_matches i) (plans db) = []"
      using that by (rule select_None_filter)
    then have "map (\<lambda>r. if id_matches i r then f r else r) (plans db) = plans db" for f
      by (simp add: filter_empty_conv map_idI)
    then show ?thesis by (simp add: put_plan_def run_update_def none)
  qed
  show ?thesis
    using missing put_plan_existing [OF inv _ new, of i e] by blast
qed

theorem put_plan_replaces_all_fields_witness:
  "reachable one_plan_db \<and>
   run_select (Numeric 2) one_plan_db = None \<and>
   put_plan (Numeric 2) high_done one_plan_db = (NotFound, one_plan_db) \<and>
   run_select (Numeric 1) one_plan_db = Some ship_release_row \<and>
   fst (put_plan (Numeric 1) high_done one_plan_db) = Success 1 \<and>
   run_select (Numeric 1) (snd (put_plan (Numeric 1) high_done one_plan_db)) =
     Some \<lparr>row_id = 1, row_title = SText ''Ship it'', row_description = SText ''today'',
           row_priority = SText ''high'', row_deadline = SText ''2024-07-01'',
           row_author = SText ''bob'', row_completed = SInt 1, row_created_at = 100\<rparr> \<and>
   put_plan (Numeric 1) urgent_done one_plan_db = (StorageError CheckFailed, one_plan_db)"
proof -
  define accepted where
    "accepted = \<lparr>row_id = 1, row_title = SText ''Ship it'', row_description = SText ''today'',
           row_priority = SText ''high'', row_deadline = SText ''2024-07-01'',
           row_author = SText ''bob'', row_completed = SInt 1, row_created_at = 100\<rparr>"
  define refused where
    "refused = \<lparr>row_id = 1, row_title = SText ''Ship release'', row_description = SText '''',
           row_priority = SText ''urgent'', row_deadline = SText ''2024-06-01'',
           row_author = SText ''alice'', row_completed = SInt 1, row_created_at = 100\<rparr>"
  have absent: "run_select (Numeric 2) one_plan_db = None"
    by (simp add: one_plan_db_eq run_select_def ship_release_row_def)
  have accepted_eq: "accepted =
     \<lparr>row_id = row_id ship_release_row, row_title = bind_param (title high_done),
      row_description =
        bind_param (if truthy (description high_done) then description high_done else JStr ''''),
      row_priority =
        bind_param (if truthy (priority high_done) then priority high_done else JStr ''medium''),
      row_deadline = bind_param (deadline high_done), row_author = bind_param (author high_done),
      row_completed = SInt (if truthy (completed high_done) then 1 else 0),
      row_created_at = row_created_at ship_release_row\<rparr>"
    by (simp add: accepted_def high_done_def ship_release_row_def)
  have refused_eq: "refused =
     \<lparr>row_id = row_id ship_release_row, row_title = bind_param (title urgent_done),
      row_description =
        bind_param (if truthy (description urgent_done) then description urgent_done else JStr ''''),
      row_priority =
        bind_param (if truthy (priority urgent_done) then priority urgent_done else JStr ''medium''),
      row_deadline = bind_param (deadline urgent_done), row_author = bind_param (author urgent_done),
      row_completed = SInt (if truthy (completed urgent_done) then 1 else 0),
      row_created_at = row_created_at ship_release_row\<rparr>"
    by (simp add: refused_def urgent_done_def ship_release_def ship_release_row_def)
  have accepted_ok: "constraint_violation accepted = None"
    by (simp add: accepted_def constraint_violation_def check_priority_def valid_priority_def)
  have refused_bad: "constraint_violation refused = Some CheckFailed"
    by (simp add: refused_def constraint_violation_def check_priority_def valid_priority_def)
  from put_plan_replaces_all_fields
         [OF reachable_one_plan_db accepted_eq, of "Numeric 2" CheckFailed]
       put_plan_replaces_all_fields
         [OF reachable_one_plan_db accepted_eq, of "Numeric 1" CheckFailed]
       put_plan_replaces_all_fields
         [OF reachable_one_plan_db refused_eq, of "Numeric 1" CheckFailed]
       absent select_one_plan_db accepted_ok refused_bad reachable_one_plan_db
  show ?thesis unfolding accepted_def by blast
qed

subsection \<open>Toggling\<close>

text \<open>
  C6. Toggling an existing plan reads its \<open>completed\<close> cell and writes the negation:
  the response carries the negated flag and one changed row, and the stored row differs
  from the one read in \<open>completed\<close> only, now 0 where it was truthy and 1 where it was
  not. A second toggle, run after the first, gives the original row back, and with it
  the original \<open>completed\<close>.
\<close>

theorem toggle_negates_and_restores:
  assumes "reachable db" and "run_select i db = Some row"
  shows "fst (patch_toggle i db) =
           Success \<lparr>tog_completed = \<not> truthy (js_of_sql (row_completed row)), tog_changes = 1\<rparr> \<and>
         run_select i (snd (patch_toggle i db)) =
           Some (row\<lparr>row_completed := SInt (if truthy (js_of_sql (row_completed row)) then 0 else 1)\<rparr>) \<and>
         run_select i (snd (patch_toggle i (snd (patch_toggle i db)))) = Some row"
proof -
  define c where "c = SInt (if truthy (js_of_sql (row_completed row)) then 0 else 1)"
  define row1 where "row1 = row\<lparr>row_completed := c\<rparr>"
  define db1 where "db1 = snd (patch_toggle i db)"
  have inv: "db_inv db" using assms(1) by (rule reachable_db_inv)
  have inv1: "db_inv db1" unfolding db1_def using inv by (rule db_inv_toggle)
  have first: "run_select i db1 = Some row1"
    unfolding db1_def row1_def by (rule toggle_existing(2) [OF inv assms(2) c_def])
  have "row \<in> set (plans db)"
    using assms(2) by (auto simp: run_select_def find_Some_iff)
  then have "row_completed row = SInt 0 \<or> row_completed row = SInt 1"
    using inv by (auto simp: db_inv_def list_all_iff row_ok_def)
  then have restored: "row1\<lparr>row_completed := SInt (if truthy (js_of_sql (row_completed row1)) then 0 else 1)\<rparr> = row"
    by (auto simp: row1_def c_def)
  have second: "run_select i (snd (patch_toggle i db1)) = Some row"
    using toggle_existing(2) [OF inv1 first refl] by (simp only: restored)
  show ?thesis
    using toggle_existing(1) [OF inv assms(2) c_def] first second
    by (simp add: db1_def row1_def c_def)
qed

theorem toggle_negates_and_restores_witness:
  "reachable one_plan_db \<and> run_select (Numeric 1) one_plan_db = Some ship_release_row \<and>
   fst (patch_toggle (Numeric 1) one_plan_db) = Success \<lparr>tog_completed = True, tog_changes = 1\<rparr> \<and>
   run_select (Numeric 1) (snd (patch_toggle (Numeric 1) one_plan_db)) =
     Some (ship_release_row\<lparr>row_completed := SInt 1\<rparr>) \<and>
   run_select (Numeric 1)
     (snd (patch_toggle (Numeric 1) (snd (patch_toggle (Numeric 1) one_plan_db)))) =
     Some ship_release_row"
proof -
  have flag: "row_completed ship_release_row = SInt 0"
    by (simp add: ship_release_row_def)
  from toggle_negates_and_restores [OF reachable_one_plan_db select_one_plan_db]
       reachable_one_plan_db select_one_plan_db
  show ?thesis by (simp add: flag)
qed

subsection \<open>The completed flag after an update\<close>

text \<open>
  C9, as the claim states it, fails: an update of an existing plan with a truthy
  \<open>completed\<close> and a priority outside the set is rejected, and the stored flag stays 0.
\<close>

theorem put_plan_completed_counterexample:
  "run_select (Numeric 1) one_plan_db = Some ship_release_row \<and>
   truthy (completed urgent_done) \<and>
   map_option row_completed
     (run_select (Numeric 1) (snd (put_plan (Numeric 1) urgent_done one_plan_db))) = Some (SInt 0)"
  by (simp add: put_urgent_done select_one_plan_db)
     (simp add: urgent_done_def ship_release_row_def)

text \<open>
  C9, amended. An update of an existing plan that succeeds sets the stored
  \<open>completed\<close> flag to 0 when the request's \<open>completed\<close> is absent or falsy, and to 1
  when it is truthy. An update that is answered with StorageError leaves the database,
  and so the flag, as it was.
\<close>

theorem put_plan_sets_completed:
  assumes "reachable db" and "run_select i db = Some old"
  shows "(fst (put_plan i b db) = Success n \<longrightarrow>
            map_option row_completed (run_select i (snd (put_plan i b db)))
              = Some (SInt (if truthy (completed b) then 1 else 0))) \<and>
         (fst (put_plan i b db) = StorageError e \<longrightarrow> snd (put_plan i b db) = db)"
proof -
  define new where "new = set_all (bind_param (title b)) (bind_param (js_or (description b) (JStr '''')))
                 (bind_param (js_or (priority b) (JStr ''medium''))) (bind_param (deadline b))
                 (bind_param (author b)) (SInt (if truthy (completed b) then 1 else 0)) old"
  have inv: "db_inv db" using assms(1) by (rule reachable_db_inv)
  have c: "row_completed new = SInt (if truthy (completed b) then 1 else 0)"
    by (simp add: new_def set_all_def)
  show ?thesis
  proof (cases "constraint_violation new")
    case None
    with put_plan_existing [OF inv assms(2) new_def, of e] c show ?thesis by simp
  next
    case (Some e')
    with put_plan_existing [OF inv assms(2) new_def, of e'] show ?thesis by simp
  qed
qed

theorem put_plan_sets_completed_witness:
  "reachable one_plan_db \<and> run_select (Numeric 1) one_plan_db = Some ship_release_row \<and>
   fst (put_plan (Numeric 1) high_done one_plan_db) = Success 1 \<and>
   truthy (completed high_done) \<and>
   map_option row_completed
     (run_select (Numeric 1) (snd (put_plan (Numeric 1) high_done one_plan_db))) = Some (SInt 1) \<and>
   fst (put_plan (Numeric 1) urgent_done one_plan_db) = StorageError CheckFailed \<and>
   snd (put_plan (Numeric 1) urgent_done one_plan_db) = one_plan_db"
proof -
  have accepted: "fst (put_plan (Numeric 1) high_done one_plan_db) = Success 1"
    by (simp add: put_high_done)
  have refused: "fst (put_plan (Numeric 1) urgent_done one_plan_db) = StorageError CheckFailed"
    by (simp add: put_urgent_done)
  have flag: "truthy (completed high_done)"
    by (simp add: high_done_def)
  from put_plan_sets_completed
         [OF reachable_one_plan_db select_one_plan_db, of high_done 1 CheckFailed]
       put_plan_sets_completed
         [OF reachable_one_plan_db select_one_plan_db, of urgent_done 1 CheckFailed]
       accepted refused flag reachable_one_plan_db select_one_plan_db
  show ?thesis by simp
qed

subsection \<open>The order of the listing\<close>

lemma mset_place_desc: "mset (place_desc r qs) = add_mset r (mset qs)"
  by (induction qs) auto

lemma mset_order_by_created_at_desc: "mset (order_by_created_at_desc rs) = mset rs"
  by (induction rs) (auto simp: mset_place_desc)

lemma set_place_desc: "set (place_desc r qs) = insert r (set qs)"
  by (induction qs) auto

lemma newest_first_place_desc:
  "sorted_wrt (\<lambda>a b. row_created_at b \<le> row_created_at a) qs
     \<Longrightarrow> sorted_wrt (\<lambda>a b. row_created_at b \<le> row_created_at a) (place_desc r qs)"
  by (induction qs) (auto simp: set_place_desc)

lemma newest_first_order_by:
  "sorted_wrt (\<lambda>a b. row_created_at b \<le> row_created_at a) (order_by_created_at_desc rs)"
  by (induction rs) (auto simp: newest_first_place_desc)

lemma newer_listed_before:
  "sorted_wrt (\<lambda>a b. row_created_at b \<le> row_created_at a) qs \<Longrightarrow> a \<in> set qs
     \<Longrightarrow> b \<in> set qs \<Longrightarrow> row_created_at b < row_created_at a \<Longrightarrow> listed_before a b qs"
proof (induction qs)
  case Nil
  then show ?case by simp
next
  case (Cons q qs)
  show ?case
  proof (cases "q = a")
    case True
    with Cons.prems show ?thesis by auto
  next
    case False
    with Cons.prems have a: "a \<in> set qs" by simp
    have "b \<noteq> q"
    proof
      assume "b = q"
      with Cons.prems(1) a have "row_created_at a \<le> row_created_at b" by simp
      with Cons.prems(4) show False by simp
    qed
    with Cons.prems have "b \<in> set qs" by simp
    with Cons a False show ?thesis by simp
  qed
qed

text \<open>
  C7, as the claim states it, fails: \<open>CURRENT_TIMESTAMP\<close> counts seconds, and of two
  plans created one after the other within the same second the listing shows the
  earlier one first.
\<close>

theorem get_plans_same_second_counterexample:
  "same_second_db = snd (post_plans ship_release 100 100500
                      (snd (post_plans ship_release 100 100000 empty_db))) \<and>
   plans same_second_db = [ship_release_row, ship_release_row\<lparr>row_id := 2\<rparr>] \<and>
   fst (get_plans same_second_db) = Success [ship_release_row, ship_release_row\<lparr>row_id := 2\<rparr>] \<and>
   \<not> listed_before (ship_release_row\<lparr>row_id := 2\<rparr>) ship_release_row
       [ship_release_row, ship_release_row\<lparr>row_id := 2\<rparr>]"
proof -
  have "same_second_db = snd (post_plans ship_release 100 100500
                      (snd (post_plans ship_release 100 100000 empty_db)))"
    by (simp only: same_second_db_def one_plan_db_def)
  moreover have "plans same_second_db = [ship_release_row, ship_release_row\<lparr>row_id := 2\<rparr>]"
    by (simp add: same_second_db_eq)
  moreover have "fst (get_plans same_second_db)
                   = Success [ship_release_row, ship_release_row\<lparr>row_id := 2\<rparr>]"
    by (simp add: get_plans_def same_second_db_eq ship_release_row_def)
  moreover have "\<not> listed_before (ship_release_row\<lparr>row_id := 2\<rparr>) ship_release_row
                     [ship_release_row, ship_release_row\<lparr>row_id := 2\<rparr>]"
    by (simp add: ship_release_row_def)
  ultimately show ?thesis by (simp only: simp_thms)
qed

text \<open>
  C7, amended. The listing holds all stored plans, each as often as the table does, in
  descending order of \<open>created_at\<close>; and of two stored plans, the one with the
  strictly later \<open>created_at\<close> comes before the other. So of two plans created in
  sequence the later one comes first when the database clock has moved on to a later
  second between the two.
\<close>

theorem get_plans_newest_first:
  assumes "get_plans db = (Success listing, db')"
  shows "db' = db \<and> mset listing = mset (plans db) \<and>
         sorted_wrt (\<lambda>a b. row_created_at b \<le> row_created_at a) listing \<and>
         (\<forall>earlier \<in> set (plans db). \<forall>later \<in> set (plans db).
            row_created_at earlier < row_created_at later \<longrightarrow> listed_before later earlier listing)"
proof -
  from assms have l: "listing = order_by_created_at_desc (plans db)" and d: "db' = db"
    by (auto simp: get_plans_def)
  have m: "mset listing = mset (plans db)"
    unfolding l by (rule mset_order_by_created_at_desc)
  have s: "set listing = set (plans db)"
    using m by (rule mset_eq_setD)
  have o: "sorted_wrt (\<lambda>a b. row_created_at b \<le> row_created_at a) listing"
    unfolding l by (rule newest_first_order_by)
  have n: "listed_before later earlier listing"
    if "earlier \<in> set (plans db)" and "later \<in> set (plans db)"
      and "row_created_at earlier < row_created_at later" for earlier later
    using newer_listed_before [OF o, of later earlier] that by (simp add: s)
  show ?thesis
    using d m o n by blast
qed

theorem get_plans_newest_first_witness:
  "get_plans next_second_db =
     (Success [ship_release_row\<lparr>row_id := 2, row_created_at := 101\<rparr>, ship_release_row],
      next_second_db) \<and>
   ship_release_row \<in> set (plans next_second_db) \<and>
   ship_release_row\<lparr>row_id := 2, row_created_at := 101\<rparr> \<in> set (plans next_second_db) \<and>
   row_created_at ship_release_row
     < row_created_at (ship_release_row\<lparr>row_id := 2, row_created_at := 101\<rparr>) \<and>
   listed_before (ship_release_row\<lparr>row_id := 2, row_created_at := 101\<rparr>) ship_release_row
     [ship_release_row\<lparr>row_id := 2, row_created_at := 101\<rparr>, ship_release_row]"
proof -
  have listing: "get_plans next_second_db =
     (Success [ship_release_row\<lparr>row_id := 2, row_created_at := 101\<rparr>, ship_release_row],
      next_second_db)"
    by (simp add: get_plans_def next_second_db_eq ship_release_row_def)
  have first: "ship_release_row \<in> set (plans next_second_db)"
    by (simp add: next_second_db_eq)
  have second:
    "ship_release_row\<lparr>row_id := 2, row_created_at := 101\<rparr> \<in> set (plans next_second_db)"
    by (simp add: next_second_db_eq)
  have later: "row_created_at ship_release_row
     < row_created_at (ship_release_row\<lparr>row_id := 2, row_created_at := 101\<rparr>)"
    by (simp add: ship_release_row_def)
  from get_plans_newest_first [OF listing] first second later listing
  show ?thesis by blast
qed

subsection \<open>The plans that a request does not name\<close>

text \<open>
  C10. Getting, updating, deleting or toggling with identifier \<open>i\<close> leaves every
  stored plan whose id differs from \<open>i\<close> as it was: the rows that \<open>i\<close> does not
  match are the same rows, in the same order, after the request as before. An update
  or a delete that succeeds reports exactly one changed row.
\<close>

theorem other_plans_unchanged:
  assumes "reachable db"
  shows "filter (\<lambda>r. \<not> id_matches i r) (plans (snd (get_plan i db)))
           = filter (\<lambda>r. \<not> id_matches i r) (plans db) \<and>
         filter (\<lambda>r. \<not> id_matches i r) (plans (snd (put_plan i b db)))
           = filter (\<lambda>r. \<not> id_matches i r) (plans db) \<and>
         filter (\<lambda>r. \<not> id_matches i r) (plans (snd (delete_plan i db)))
           = filter (\<lambda>r. \<not> id_matches i r) (plans db) \<and>
         filter (\<lambda>r. \<not> id_matches i r) (plans (snd (patch_toggle i db)))
           = filter (\<lambda>r. \<not> id_matches i r) (plans db) \<and>
         (fst (put_plan i b db) = Success n \<longrightarrow> n = 1) \<and>
         (fst (delete_plan i db) = Success m \<longrightarrow> m = 1)"
proof -
  have inv: "db_inv db" using assms by (rule reachable_db_inv)
  have g: "snd (get_plan i db) = db"
    by (simp add: get_plan_def split: option.splits)
  have p: "filter (\<lambda>r. \<not> id_matches i r) (plans (snd (put_plan i b db)))
           = filter (\<lambda>r. \<not> id_matches i r) (plans db)"
    by (auto simp: put_plan_def run_update_def Let_def filter_others_map split: option.splits)
  have d: "filter (\<lambda>r. \<not> id_matches i r) (plans (snd (delete_plan i db)))
           = filter (\<lambda>r. \<not> id_matches i r) (plans db)"
    by (simp add: delete_plan_def run_delete_def)
  have t: "filter (\<lambda>r. \<not> id_matches i r) (plans (snd (patch_toggle i db)))
           = filter (\<lambda>r. \<not> id_matches i r) (plans db)"
    by (auto simp: patch_toggle_def run_update_completed_def Let_def filter_others_map
             split: option.splits)
  have le1: "length (filter (id_matches i) (plans db)) \<le> 1"
  proof (cases "run_select i db")
    case None
    then show ?thesis by (simp add: select_None_filter)
  next
    case (Some row)
    then show ?thesis by (simp add: select_Some_filter [OF inv])
  qed
  have len: "filter (id_matches i) (plans db) = [] \<or> length (filter (id_matches i) (plans db)) = 1"
    using le1 by (cases "filter (id_matches i) (plans db)") auto
  have pn: "n = 1" if "fst (put_plan i b db) = Success n"
    using that len
    by (auto simp: put_plan_def run_update_def Let_def split: option.splits if_splits)
  have dm: "m = 1" if "fst (delete_plan i db) = Success m"
    using that len
    by (auto simp: delete_plan_def run_delete_def split: if_splits)
  show ?thesis using g p d t pn dm by simp
qed

theorem other_plans_unchanged_witness:
  "reachable same_second_db \<and>
   fst (put_plan (Numeric 1) high_done same_second_db) = Success 1 \<and>
   fst (delete_plan (Numeric 1) same_second_db) = Success 1 \<and>
   filter (\<lambda>r. \<not> id_matches (Numeric 1) r) (plans same_second_db)
     = [ship_release_row\<lparr>row_id := 2\<rparr>] \<and>
   filter (\<lambda>r. \<not> id_matches (Numeric 1) r)
     (plans (snd (put_plan (Numeric 1) high_done same_second_db)))
     = [ship_release_row\<lparr>row_id := 2\<rparr>] \<and>
   filter (\<lambda>r. \<not> id_matches (Numeric 1) r)
     (plans (snd (delete_plan (Numeric 1) same_second_db)))
     = [ship_release_row\<lparr>row_id := 2\<rparr>] \<and>
   filter (\<lambda>r. \<not> id_matches (Numeric 1) r)
     (plans (snd (patch_toggle (Numeric 1) same_second_db)))
     = [ship_release_row\<lparr>row_id := 2\<rparr>]"
proof -
  have others: "filter (\<lambda>r. \<not> id_matches (Numeric 1) r) (plans same_second_db)
                  = [ship_release_row\<lparr>row_id := 2\<rparr>]"
    by (simp add: same_second_db_eq ship_release_row_def)
  have updated: "fst (put_plan (Numeric 1) high_done same_second_db) = Success 1"
    by (simp add: put_plan_def run_update_def same_second_db_eq ship_release_row_def
          high_done_def set_all_def js_or_def constraint_violation_def check_priority_def
          valid_priority_def)
  have deleted: "fst (delete_plan (Numeric 1) same_second_db) = Success 1"
    by (simp add: delete_plan_def run_delete_def same_second_db_eq ship_release_row_def)
  from other_plans_unchanged [OF reachable_same_second_db, of "Numeric 1" high_done 1 1]
       reachable_same_second_db updated deleted others
  show ?thesis by simp
qed

subsection \<open>The priority of a stored plan\<close>

lemma truthy_check_priority:
  "truthy v \<Longrightarrow> check_priority (bind_param v) = valid_priority (bind_param v)"
  by (cases v) (auto simp: check_priority_def)

text \<open>
  C8, as the claim states it, fails: a create request whose priority is the empty
  string supplies a value outside the set and is not rejected; \<open>priority || 'medium'\<close>
  replaces it, and the plan is stored with priority medium.
\<close>

theorem post_plans_blank_priority_counterexample:
  "priority blank_priority = JStr '''' \<and>
   \<not> valid_priority (bind_param (priority blank_priority)) \<and>
   post_plans blank_priority 100 100000 empty_db =
     (Success \<lparr>res_id = 1, res_title = JStr ''Ship release'', res_description = JStr '''',
               res_priority = JStr ''medium'', res_deadline = JStr ''2024-06-01'',
               res_author = JStr ''alice'', res_completed = False, res_created_at = 100000\<rparr>,
      \<lparr>plans = [ship_release_row], sqlite_sequence = 1\<rparr>)"
  by (simp add: blank_priority_def post_plans_def run_insert_def next_rowid_def
        ship_release_def ship_release_row_def js_or_def constraint_violation_def empty_db_def
        check_priority_def valid_priority_def)

text \<open>
  C8, amended. In every reachable database the priority of every stored plan is one of
  low, medium and high. A create request whose priority is truthy and outside this set
  inserts nothing, and when it passes the validation it is the CHECK constraint of the
  table that rejects it, with StorageError. A create request whose priority is falsy
  (absent, null, the empty string, 0 or false) and that passes the validation is
  accepted: the response and the inserted row carry the priority medium.
\<close>

theorem stored_priority_valid:
  assumes "reachable db"
  shows "list_all (\<lambda>r. valid_priority (row_priority r)) (plans db) \<and>
         (truthy (priority b) \<and> \<not> valid_priority (bind_param (priority b)) \<longrightarrow>
            snd (post_plans b db_now js_now db) = db \<and>
            (truthy (title b) \<and> truthy (deadline b) \<and> truthy (author b) \<longrightarrow>
               fst (post_plans b db_now js_now db) = StorageError CheckFailed)) \<and>
         (\<not> truthy (priority b) \<and> truthy (title b) \<and> truthy (deadline b) \<and> truthy (author b) \<longrightarrow>
            post_plans b db_now js_now db =
              (Success \<lparr>res_id = next_rowid db, res_title = title b,
                        res_description =
                          (if truthy (description b) then description b else JStr ''''),
                        res_priority = JStr ''medium'',
                        res_deadline = deadline b, res_author = author b,
                        res_completed = False, res_created_at = js_now\<rparr>,
               \<lparr>plans = plans db @
                  [\<lparr>row_id = next_rowid db, row_title = bind_param (title b),
                    row_description =
                      bind_param (if truthy (description b) then description b else JStr ''''),
                    row_priority = SText ''medium'',
                    row_deadline = bind_param (deadline b), row_author = bind_param (author b),
                    row_completed = SInt 0, row_created_at = db_now\<rparr>],
                sqlite_sequence = next_rowid db\<rparr>))"
proof -
  have inv: "list_all (\<lambda>r. valid_priority (row_priority r)) (plans db)"
    using reachable_db_inv [OF assms] by (simp add: db_inv_def list_all_iff row_ok_def)
  have rej: "snd (post_plans b db_now js_now db) = db \<and>
            (truthy (title b) \<and> truthy (deadline b) \<and> truthy (author b) \<longrightarrow>
               fst (post_plans b db_now js_now db) = StorageError CheckFailed)"
    if "truthy (priority b)" and "\<not> valid_priority (bind_param (priority b))"
    using that truthy_check_priority [OF that(1)]
    by (auto simp: post_plans_def run_insert_def js_or_def constraint_violation_def
          truthy_bind_not_null)
  have acc: "post_plans b db_now js_now db =
              (Success \<lparr>res_id = next_rowid db, res_title = title b,
                        res_description =
                          (if truthy (description b) then description b else JStr ''''),
                        res_priority = JStr ''medium'',
                        res_deadline = deadline b, res_author = author b,
                        res_completed = False, res_created_at = js_now\<rparr>,
               \<lparr>plans = plans db @
                  [\<lparr>row_id = next_rowid db, row_title = bind_param (title b),
                    row_description =
                      bind_param (if truthy (description b) then description b else JStr ''''),
                    row_priority = SText ''medium'',
                    row_deadline = bind_param (deadline b), row_author = bind_param (author b),
                    row_completed = SInt 0, row_created_at = db_now\<rparr>],
                sqlite_sequence = next_rowid db\<rparr>)"
    if "\<not> truthy (priority b)" and "truthy (title b)" and "truthy (deadline b)"
      and "truthy (author b)"
    using that
    by (simp add: post_plans_def run_insert_def js_or_def constraint_violation_def
          check_priority_def valid_priority_def truthy_bind_not_null)
  show ?thesis using inv rej acc by blast
qed

theorem stored_priority_valid_witness:
  "reachable one_plan_db \<and>
   list_all (\<lambda>r. valid_priority (row_priority r)) (plans one_plan_db) \<and>
   truthy (priority urgent_done) \<and> \<not> valid_priority (bind_param (priority urgent_done)) \<and>
   truthy (title urgent_done) \<and> truthy (deadline urgent_done) \<and> truthy (author urgent_done) \<and>
   snd (post_plans urgent_done 101 101000 one_plan_db) = one_plan_db \<and>
   fst (post_plans urgent_done 101 101000 one_plan_db) = StorageError CheckFailed \<and>
   \<not> truthy (priority blank_priority) \<and>
   truthy (title blank_priority) \<and> truthy (deadline blank_priority) \<and>
   truthy (author blank_priority) \<and>
   post_plans blank_priority 101 101000 one_plan_db =
     (Success \<lparr>res_id = next_rowid one_plan_db, res_title = title blank_priority,
               res_description =
                 (if truthy (description blank_priority) then description blank_priority
                  else JStr ''''),
               res_priority = JStr ''medium'',
               res_deadline = deadline blank_priority, res_author = author blank_priority,
               res_completed = False, res_created_at = 101000\<rparr>,
      \<lparr>plans = plans one_plan_db @
         [\<lparr>row_id = next_rowid one_plan_db, row_title = bind_param (title blank_priority),
           row_description =
             bind_param (if truthy (description blank_priority) then description blank_priority
                         else JStr ''''),
           row_priority = SText ''medium'',
           row_deadline = bind_param (deadline blank_priority),
           row_author = bind_param (author blank_priority),
           row_completed = SInt 0, row_created_at = 101\<rparr>],
       sqlite_sequence = next_rowid one_plan_db\<rparr>)"
proof -
  have outside: "truthy (priority urgent_done) \<and>
                 \<not> valid_priority (bind_param (priority urgent_done))"
    by (simp add: urgent_done_def valid_priority_def)
  have required: "truthy (title urgent_done) \<and> truthy (deadline urgent_done) \<and>
                  truthy (author urgent_done)"
    by (simp add: urgent_done_def ship_release_def)
  have blank: "\<not> truthy (priority blank_priority) \<and> truthy (title blank_priority) \<and>
               truthy (deadline blank_priority) \<and> truthy (author blank_priority)"
    by (simp add: blank_priority_def ship_release_def)
  from stored_priority_valid [OF reachable_one_plan_db, of urgent_done 101 101000]
       stored_priority_valid [OF reachable_one_plan_db, of blank_priority 101 101000]
       outside required blank reachable_one_plan_db
  show ?thesis by blast
qed

subsection \<open>Statistics\<close>

text \<open>
  On a table with at least one row the three numbers are the counts of all rows, of
  the rows with \<open>completed = 1\<close> and of the rows with priority high.
\<close>

lemma sum_case_completed:
  "sum_list (map case_completed rs) = int (length (filter (\<lambda>r. row_completed r = SInt 1) rs))"
  by (induction rs) (auto simp: case_completed_def)

lemma sum_case_high:
  "sum_list (map case_high rs) = int (length (filter (\<lambda>r. row_priority r = SText ''high'') rs))"
  by (induction rs) (auto simp: case_high_def)

lemma get_stats_counts:
  "plans db \<noteq> [] \<Longrightarrow>
   get_stats db =
     (Success \<lparr>stats_total = JNum (int (length (plans db))),
               stats_completed =
                 JNum (int (length (filter (\<lambda>r. row_completed r = SInt 1) (plans db)))),
               stats_high_priority =
                 JNum (int (length (filter (\<lambda>r. row_priority r = SText ''high'') (plans db))))\<rparr>,
      db)"
  by (simp add: get_stats_def sql_count_def sql_sum_def sum_case_completed sum_case_high)

text \<open>
  C3. On the empty table the statistics are \<open>total = 0\<close>, \<open>completed = null\<close> and
  \<open>high_priority = null\<close>: \<open>SUM\<close> over no rows is NULL, so the two conditional sums do
  not give the count, 0, of the matching rows.
\<close>

theorem get_stats_empty_db:
  "get_stats empty_db =
     (Success \<lparr>stats_total = JNum 0, stats_completed = Null, stats_high_priority = Null\<rparr>,
      empty_db)"
  by (simp add: get_stats_def sql_count_def sql_sum_def empty_db_def)

end
